theory Spec2Isabelle
  imports Complex_Main "HOL-Library.Sublist"
begin

chapter \<open>The generation resilience layer of longcut: embedding\<close>

section \<open>JavaScript strings and thrown values\<close>

text \<open>
  Strings are \<^typ>\<open>string\<close>; the model covers ASCII text. \<open>toLowerCase\<close> maps the
  letters A to Z and leaves every other character as it is; \<open>trim\<close> removes the
  ASCII white space characters (tab, line feed, vertical tab, form feed, carriage
  return, space) at both ends.
\<close>

definition toLowerChar :: "char \<Rightarrow> char" where
  "toLowerChar c =
     (case map_of (zip ''ABCDEFGHIJKLMNOPQRSTUVWXYZ'' ''abcdefghijklmnopqrstuvwxyz'') c of
        Some l \<Rightarrow> l
      | None \<Rightarrow> c)"

definition toLowerCase :: "string \<Rightarrow> string" where
  "toLowerCase s = map toLowerChar s"

fun startsWith :: "string \<Rightarrow> string \<Rightarrow> bool" where
  "startsWith s [] = True"
| "startsWith [] (p # ps) = False"
| "startsWith (c # s) (p # ps) = (c = p \<and> startsWith s ps)"

text \<open>\<open>String.prototype.includes\<close>: the second string occurs somewhere in the first.\<close>

fun str_includes :: "string \<Rightarrow> string \<Rightarrow> bool" where
  "str_includes [] sub = (sub = [])"
| "str_includes (c # s) sub = (startsWith (c # s) sub \<or> str_includes s sub)"

definition isSpace :: "char \<Rightarrow> bool" where
  "isSpace c = (c \<in> set [CHR 0x09, CHR 0x0A, CHR 0x0B, CHR 0x0C, CHR 0x0D, CHR '' ''])"

definition trim :: "string \<Rightarrow> string" where
  "trim s = rev (dropWhile isSpace (rev (dropWhile isSpace s)))"

text \<open>
  What a \<open>catch\<close> clause can receive: an \<open>Error\<close> object with its message and its
  \<open>status ?? code\<close> when it has one, the \<open>DOMException\<close> named \<open>AbortError\<close> that an
  aborted operation raises, a string primitive, or \<open>undefined\<close>.
\<close>

datatype thrown =
    JsError string "int option"
  | AbortError string
  | JsString string
  | JsUndefined

text \<open>\<open>!error\<close> is true for \<open>undefined\<close> and for the empty string.\<close>

fun falsy :: "thrown \<Rightarrow> bool" where
  "falsy (JsError m st) = False"
| "falsy (AbortError m) = False"
| "falsy (JsString s) = (s = [])"
| "falsy JsUndefined = True"

text \<open>\<open>error instanceof Error ? error.message : String(error)\<close>\<close>

fun messageOrString :: "thrown \<Rightarrow> string" where
  "messageOrString (JsError m st) = m"
| "messageOrString (AbortError m) = m"
| "messageOrString (JsString s) = s"
| "messageOrString JsUndefined = ''undefined''"

text \<open>\<open>typeof error.message === 'string' ? error.message : ''\<close>, on a truthy value.\<close>

fun messageOrEmpty :: "thrown \<Rightarrow> string" where
  "messageOrEmpty (JsError m st) = m"
| "messageOrEmpty (AbortError m) = m"
| "messageOrEmpty (JsString s) = ''''"
| "messageOrEmpty JsUndefined = ''''"

text \<open>\<open>error.status ?? error.code\<close>\<close>

fun statusOrCode :: "thrown \<Rightarrow> int option" where
  "statusOrCode (JsError m st) = st"
| "statusOrCode (AbortError m) = None"
| "statusOrCode (JsString s) = None"
| "statusOrCode JsUndefined = None"

text \<open>\<open>error instanceof Error ? error.message : 'Unknown error'\<close>\<close>

fun messageOrUnknown :: "thrown \<Rightarrow> string" where
  "messageOrUnknown (JsError m st) = m"
| "messageOrUnknown (AbortError m) = m"
| "messageOrUnknown (JsString s) = ''Unknown error''"
| "messageOrUnknown JsUndefined = ''Unknown error''"

section \<open>The three error classifiers\<close>

text \<open>\<open>isRetryableError\<close> of \<open>registry.ts\<close> (the fallback orchestrator).\<close>

definition registry_isRetryableError :: "thrown \<Rightarrow> bool" where
  "registry_isRetryableError error =
     (if falsy error then False
      else
        let message = messageOrString error;
            lowerMessage = toLowerCase message
        in str_includes lowerMessage ''service unavailable'' \<or>
           str_includes lowerMessage ''503'' \<or>
           str_includes lowerMessage ''502'' \<or>
           str_includes lowerMessage ''504'' \<or>
           str_includes lowerMessage ''timeout'' \<or>
           str_includes lowerMessage ''overload'')"

text \<open>\<open>isRetryableError\<close> of \<open>claude-adapter.ts\<close> (the Claude model cascade).\<close>

definition claude_isRetryableError :: "thrown \<Rightarrow> bool" where
  "claude_isRetryableError error =
     (if falsy error then False
      else
        let message = messageOrString error;
            lower = toLowerCase message
        in str_includes lower ''429'' \<or>
           str_includes lower ''503'' \<or>
           str_includes lower ''529'' \<or>
           str_includes lower ''overloaded'' \<or>
           str_includes lower ''rate_limit'' \<or>
           str_includes lower ''service unavailable'')"

text \<open>\<open>isRetryableError\<close> of the Gemini adapter (the Gemini model cascade).\<close>

definition gemini_isRetryableError :: "thrown \<Rightarrow> bool" where
  "gemini_isRetryableError error =
     (if falsy error then False
      else
        let message = messageOrEmpty error;
            status = statusOrCode error
        in status = Some 503 \<or>
           status = Some 429 \<or>
           str_includes message ''503'' \<or>
           str_includes message ''429'' \<or>
           str_includes (toLowerCase message) ''overload'' \<or>
           str_includes (toLowerCase message) ''rate limit'')"

section \<open>Requests, results and adapters\<close>

text \<open>
  \<open>ProviderGenerateParams\<close> with the fields the modelled code reads, and
  \<open>ProviderGenerateResult\<close> without its usage numbers and raw payload. The type
  parameter is the type of Zod schemas.
\<close>

record 'z ProviderGenerateParams =
  prompt :: string
  model :: "string option"
  temperature :: "real option"
  topP :: "real option"
  maxOutputTokens :: "nat option"
  timeoutMs :: "nat option"
  zodSchema :: "'z option"

record ProviderGenerateResult =
  content :: string
  provider :: string
  resultModel :: string

text \<open>
  An adapter's \<open>generate\<close> returns its outcome together with the list of models it sent
  to its backend, in order: one entry for each backend attempt of the call.
\<close>

record 'z ProviderAdapter =
  adapterName :: string
  defaultModel :: string
  generate :: "'z ProviderGenerateParams \<Rightarrow> (thrown + ProviderGenerateResult) \<times> string list"

text \<open>\<open>Array.prototype.indexOf\<close>: the first position of the element, \<open>-1\<close> without one.\<close>

fun indexOf :: "'a list \<Rightarrow> 'a \<Rightarrow> int" where
  "indexOf [] x = - 1"
| "indexOf (y # ys) x =
     (if y = x then 0 else let i = indexOf ys x in if i < 0 then - 1 else i + 1)"

section \<open>The Claude adapter and its model cascade\<close>

definition claude_PROVIDER_NAME :: string where
  "claude_PROVIDER_NAME = ''claude''"

definition claude_MODEL_CASCADE :: "string list" where
  "claude_MODEL_CASCADE =
     [''claude-haiku-4-5-20251001'', ''claude-sonnet-4-6'', ''claude-opus-4-6'']"

definition getNextModel :: "string \<Rightarrow> string option" where
  "getNextModel current =
     (let idx = indexOf claude_MODEL_CASCADE current
      in if idx < 0 \<or> idx \<ge> int (length claude_MODEL_CASCADE) - 1 then None
         else Some (claude_MODEL_CASCADE ! nat (idx + 1)))"

text \<open>
  \<open>callClaude\<close>. The parameter \<open>toJSONSchema\<close> is Zod's \<open>z.toJSONSchema\<close>, which can
  throw; the parameter \<open>sdk\<close> is the run of the agent SDK's \<open>query\<close> on the prompt, the
  model and the output format, with the assembly of the result from its messages: it
  returns the result or what was thrown inside the \<open>try\<close> block. When the deadline's
  timer fires, the abort controller aborts the query, which throws an \<open>AbortError\<close>.
  A failed schema conversion is caught and leaves the output format out.
\<close>

definition claude_outputFormat ::
  "('z \<Rightarrow> thrown + 'j) \<Rightarrow> 'z ProviderGenerateParams \<Rightarrow> 'j option" where
  "claude_outputFormat toJSONSchema params =
     (case zodSchema params of
        None \<Rightarrow> None
      | Some z \<Rightarrow>
          (case toJSONSchema z of
             Inl schemaError \<Rightarrow> None
           | Inr jsonSchema \<Rightarrow> Some jsonSchema))"

definition callClaude ::
  "('z \<Rightarrow> thrown + 'j) \<Rightarrow> (string \<Rightarrow> string \<Rightarrow> 'j option \<Rightarrow> thrown + ProviderGenerateResult) \<Rightarrow>
   string \<Rightarrow> string \<Rightarrow> 'z ProviderGenerateParams \<Rightarrow> thrown + ProviderGenerateResult" where
  "callClaude toJSONSchema sdk prmpt mdl params =
     (case sdk prmpt mdl (claude_outputFormat toJSONSchema params) of
        Inr res \<Rightarrow> Inr res
      | Inl (AbortError m) \<Rightarrow> Inl (JsError ''Claude request timed out.'' None)
      | Inl error \<Rightarrow> Inl error)"

lemma indexOf_bound: "indexOf ys x < int (length ys)"
  by (induction ys) (auto simp: Let_def)

lemma indexOf_nth: "0 \<le> indexOf ys x \<Longrightarrow> ys ! nat (indexOf ys x) = x"
  by (induction ys) (auto simp: Let_def nat_add_distrib split: if_splits)

lemma indexOf_first: "0 \<le> indexOf ys x \<Longrightarrow> j < nat (indexOf ys x) \<Longrightarrow> ys ! j \<noteq> x"
proof (induction ys arbitrary: j)
  case Nil
  then show ?case by simp
next
  case (Cons y ys)
  then show ?case
    by (cases j) (auto simp: Let_def nat_add_distrib split: if_splits)
qed

lemma indexOf_distinct:
  "distinct ys \<Longrightarrow> k < length ys \<Longrightarrow> indexOf ys (ys ! k) = int k"
proof (induction ys arbitrary: k)
  case Nil
  then show ?case by simp
next
  case (Cons y ys)
  then show ?case
    by (cases k) (auto simp: Let_def)
qed

lemma claude_cascade_distinct: "distinct claude_MODEL_CASCADE"
  by (simp add: claude_MODEL_CASCADE_def)

lemma getNextModel_index:
  assumes "getNextModel current = Some next"
  shows "0 \<le> indexOf claude_MODEL_CASCADE current \<and>
         indexOf claude_MODEL_CASCADE next = indexOf claude_MODEL_CASCADE current + 1 \<and>
         indexOf claude_MODEL_CASCADE next < int (length claude_MODEL_CASCADE)"
proof -
  let ?i = "indexOf claude_MODEL_CASCADE current"
  from assms have i: "0 \<le> ?i" "?i < int (length claude_MODEL_CASCADE) - 1"
    and n: "next = claude_MODEL_CASCADE ! nat (?i + 1)"
    by (auto simp: getNextModel_def Let_def split: if_splits)
  from i have "nat (?i + 1) < length claude_MODEL_CASCADE" by linarith
  with claude_cascade_distinct have "indexOf claude_MODEL_CASCADE next = int (nat (?i + 1))"
    unfolding n by (rule indexOf_distinct)
  with i show ?thesis by simp
qed

text \<open>
  The \<open>while (true)\<close> loop of \<open>generate\<close>: one call of \<open>callClaude\<close> on the current
  model; a retryable error with a next model continues on that model, everything else
  ends the loop. The second component lists the models tried.
\<close>

function claude_cascade ::
  "(string \<Rightarrow> thrown + ProviderGenerateResult) \<Rightarrow> string \<Rightarrow>
   (thrown + ProviderGenerateResult) \<times> string list" where
  "claude_cascade call currentModel =
     (case call currentModel of
        Inr res \<Rightarrow> (Inr res, [currentModel])
      | Inl error \<Rightarrow>
          (if claude_isRetryableError error then
             (case getNextModel currentModel of
                Some next \<Rightarrow>
                  (let (outcome, tried) = claude_cascade call next
                   in (outcome, currentModel # tried))
              | None \<Rightarrow> (Inl error, [currentModel]))
           else (Inl error, [currentModel])))"
  by pat_completeness auto
termination
proof (relation "measure (\<lambda>(call, current).
         nat (int (length claude_MODEL_CASCADE) - indexOf claude_MODEL_CASCADE current))")
  show "wf (measure (\<lambda>(call, current).
         nat (int (length claude_MODEL_CASCADE) - indexOf claude_MODEL_CASCADE current)))"
    by simp
next
  fix call :: "string \<Rightarrow> thrown + ProviderGenerateResult"
  fix currentModel :: string and error :: thrown and x2 :: string
  assume "getNextModel currentModel = Some x2"
  from getNextModel_index [OF this]
  show "((call, x2), (call, currentModel)) \<in> measure (\<lambda>(call, current).
         nat (int (length claude_MODEL_CASCADE) - indexOf claude_MODEL_CASCADE current))"
    by simp
qed

declare claude_cascade.simps [simp del]

definition claude_generate ::
  "('z \<Rightarrow> thrown + 'j) \<Rightarrow> (string \<Rightarrow> string \<Rightarrow> 'j option \<Rightarrow> thrown + ProviderGenerateResult) \<Rightarrow>
   'z ProviderGenerateParams \<Rightarrow> (thrown + ProviderGenerateResult) \<times> string list" where
  "claude_generate toJSONSchema sdk params =
     (let isClaudeModel =
            (case model params of
               None \<Rightarrow> False
             | Some m \<Rightarrow> m \<noteq> [] \<and> m \<in> set claude_MODEL_CASCADE);
          startModel = (if isClaudeModel then the (model params) else claude_MODEL_CASCADE ! 0)
      in claude_cascade (\<lambda>m. callClaude toJSONSchema sdk (prompt params) m params) startModel)"

definition createClaudeAdapter ::
  "('z \<Rightarrow> thrown + 'j) \<Rightarrow> (string \<Rightarrow> string \<Rightarrow> 'j option \<Rightarrow> thrown + ProviderGenerateResult) \<Rightarrow>
   'z ProviderAdapter" where
  "createClaudeAdapter toJSONSchema sdk =
     \<lparr> adapterName = claude_PROVIDER_NAME,
       defaultModel = claude_MODEL_CASCADE ! 0,
       generate = claude_generate toJSONSchema sdk \<rparr>"

section \<open>The schema negotiator of the Gemini adapter\<close>

text \<open>
  A node of the JSON Schema that \<open>z.toJSONSchema\<close> returns, with the keywords that
  \<open>convertToGeminiSchema\<close> reads: \<open>type\<close>, \<open>anyOf\<close>, \<open>oneOf\<close>, \<open>properties\<close>, \<open>required\<close>,
  \<open>items\<close>, \<open>minItems\<close>, \<open>maxItems\<close>, \<open>pattern\<close> and \<open>enum\<close>. \<open>None\<close> is an absent keyword.
\<close>

datatype jschema = JSchema
  (js_type: "string option")
  (js_anyOf: "jschema list option")
  (js_oneOf: "jschema list option")
  (js_properties: "(string \<times> jschema) list option")
  (js_required: "string list option")
  (js_items: "jschema option")
  (js_minItems: "nat option")
  (js_maxItems: "nat option")
  (js_pattern: "string option")
  (js_enum: "string list option")

text \<open>
  The Gemini schema objects the conversion builds: an object with its properties and
  required names, an array with its items and bounds, a string with its pattern and
  allowed values, a number, a boolean. The last field is \<open>nullable\<close>.
\<close>

datatype gschema =
    GObject "(string \<times> gschema) list" "string list" bool
  | GArray gschema "nat option" "nat option" bool
  | GString "string option" "string list option" bool
  | GNumber bool
  | GBoolean bool

text \<open>\<open>converted.nullable = true\<close>\<close>

fun setNullable :: "gschema \<Rightarrow> gschema" where
  "setNullable (GObject ps rq n) = GObject ps rq True"
| "setNullable (GArray it mn mx n) = GArray it mn mx True"
| "setNullable (GString pt en n) = GString pt en True"
| "setNullable (GNumber n) = GNumber True"
| "setNullable (GBoolean n) = GBoolean True"

text \<open>\<open>jsonSchema.anyOf || jsonSchema.oneOf\<close>: an array is truthy, also an empty one.\<close>

definition unionSchemas :: "jschema \<Rightarrow> jschema list option" where
  "unionSchemas s = (case js_anyOf s of Some xs \<Rightarrow> Some xs | None \<Rightarrow> js_oneOf s)"

definition nonNull :: "jschema list \<Rightarrow> jschema list" where
  "nonNull schemas = filter (\<lambda>schema. js_type schema \<noteq> Some ''null'') schemas"

lemma size_in_list: "x \<in> set xs \<Longrightarrow> size x < Suc (size_list size xs)"
  by (induction xs) auto

lemma size_in_props:
  "(k, x) \<in> set ps \<Longrightarrow> size x < Suc (size_list (size_prod (\<lambda>_. 0) size) ps)"
  by (induction ps) auto

lemma nonNull_hd: "nonNull xs \<noteq> [] \<Longrightarrow> hd (nonNull xs) \<in> set xs"
  using list.set_sel(1) [of "nonNull xs"] by (auto simp: nonNull_def)

lemma union_member_size:
  "unionSchemas s = Some xs \<Longrightarrow> x \<in> set xs \<Longrightarrow> size x < size s"
  by (cases s) (auto simp: unionSchemas_def split: option.splits dest: size_in_list)

lemma props_member_size:
  "js_properties s = Some ps \<Longrightarrow> (k, x) \<in> set ps \<Longrightarrow> size x < size s"
  by (cases s) (auto dest: size_in_props)

lemma items_size: "js_items s = Some x \<Longrightarrow> size x < size s"
  by (cases s) auto

lemma nonNull_hd_size:
  assumes "0 < length (case unionSchemas s of None \<Rightarrow> [] | Some xs \<Rightarrow> nonNull xs)"
  shows "size (hd (case unionSchemas s of None \<Rightarrow> [] | Some xs \<Rightarrow> nonNull xs)) < size s"
proof (cases "unionSchemas s")
  case None
  with assms show ?thesis by simp
next
  case (Some xs)
  with assms have "nonNull xs \<noteq> []" by auto
  then have "hd (nonNull xs) \<in> set xs" by (rule nonNull_hd)
  with Some show ?thesis by (simp add: union_member_size)
qed

text \<open>
  \<open>convertToGeminiSchema\<close> on a schema node. Without \<open>anyOf\<close> and \<open>oneOf\<close>, and with a
  union whose members are all of type \<open>null\<close>, the list of non-null members is empty
  and the branches on \<open>type\<close> decide, as in the source.
\<close>

function convertToGeminiSchema :: "jschema \<Rightarrow> gschema" where
  "convertToGeminiSchema jsonSchema =
     (let nonNullSchemas =
            (case unionSchemas jsonSchema of None \<Rightarrow> [] | Some schemas \<Rightarrow> nonNull schemas)
      in
      if length nonNullSchemas = 1 then setNullable (convertToGeminiSchema (hd nonNullSchemas))
      else if length nonNullSchemas > 0 then convertToGeminiSchema (hd nonNullSchemas)
      else if js_type jsonSchema = Some ''object'' then
        GObject
          (map (\<lambda>(key, v). (key, convertToGeminiSchema v))
             (case js_properties jsonSchema of None \<Rightarrow> [] | Some ps \<Rightarrow> ps))
          (case js_required jsonSchema of None \<Rightarrow> [] | Some r \<Rightarrow> r)
          False
      else if js_type jsonSchema = Some ''array'' then
        GArray
          (case js_items jsonSchema of
             Some items \<Rightarrow> convertToGeminiSchema items
           | None \<Rightarrow> GString None None False)
          (js_minItems jsonSchema) (js_maxItems jsonSchema) False
      else if js_type jsonSchema = Some ''string'' then GString (js_pattern jsonSchema) None False
      else if js_type jsonSchema = Some ''number'' \<or> js_type jsonSchema = Some ''integer''
        then GNumber False
      else if js_type jsonSchema = Some ''boolean'' then GBoolean False
      else
        (case js_enum jsonSchema of
           Some vs \<Rightarrow> GString None (Some vs) False
         | None \<Rightarrow> GString None None False))"
  by pat_completeness auto
termination
proof (relation "measure size")
  show "wf (measure (size :: jschema \<Rightarrow> nat))" by simp
next
  fix jsonSchema :: jschema and x :: "jschema list"
  assume "x = (case unionSchemas jsonSchema of None \<Rightarrow> [] | Some xs \<Rightarrow> nonNull xs)"
    and "length x = 1"
  then show "(hd x, jsonSchema) \<in> measure size"
    using nonNull_hd_size [of jsonSchema] by simp
next
  fix jsonSchema :: jschema and x :: "jschema list"
  assume "x = (case unionSchemas jsonSchema of None \<Rightarrow> [] | Some xs \<Rightarrow> nonNull xs)"
    and "0 < length x"
  then show "(hd x, jsonSchema) \<in> measure size"
    using nonNull_hd_size [of jsonSchema] by simp
next
  fix jsonSchema :: jschema and xa :: "string \<times> jschema" and xb y
  assume "xa \<in> set (case js_properties jsonSchema of None \<Rightarrow> [] | Some ps \<Rightarrow> ps)"
    and "(xb, y) = xa"
  then show "(y, jsonSchema) \<in> measure size"
    by (cases "js_properties jsonSchema") (auto dest: props_member_size)
next
  fix jsonSchema x2 :: jschema
  assume "js_items jsonSchema = Some x2"
  then show "(x2, jsonSchema) \<in> measure size"
    by (simp add: items_size)
qed

declare convertToGeminiSchema.simps [simp del]

record GenerationConfig =
  cfg_temperature :: "real option"
  cfg_topP :: "real option"
  cfg_maxOutputTokens :: "nat option"
  responseMimeType :: "string option"
  responseSchema :: "gschema option"

text \<open>
  \<open>buildGenerationConfig\<close>. Whatever the \<open>try\<close> block throws is thrown again as an
  \<open>Error\<close> whose message starts with \<open>Failed to convert schema\<close>.
\<close>

fun failedToConvert :: "thrown \<Rightarrow> thrown" where
  "failedToConvert (JsError m st) = JsError (''Failed to convert schema: '' @ m) None"
| "failedToConvert (AbortError m) = JsError (''Failed to convert schema: '' @ m) None"
| "failedToConvert (JsString s) = JsError ''Failed to convert schema'' None"
| "failedToConvert JsUndefined = JsError ''Failed to convert schema'' None"

definition buildGenerationConfig ::
  "('z \<Rightarrow> thrown + jschema) \<Rightarrow> 'z ProviderGenerateParams \<Rightarrow> thrown + GenerationConfig" where
  "buildGenerationConfig toJSONSchema params =
     (let config = \<lparr> cfg_temperature = temperature params, cfg_topP = topP params,
                     cfg_maxOutputTokens = maxOutputTokens params,
                     responseMimeType = None, responseSchema = None \<rparr>
      in case zodSchema params of
           None \<Rightarrow> Inr config
         | Some z \<Rightarrow>
             (case toJSONSchema z of
                Inl error \<Rightarrow> Inl (failedToConvert error)
              | Inr jsonSchema \<Rightarrow>
                  Inr (config\<lparr> responseMimeType := Some ''application/json'',
                              responseSchema := Some (convertToGeminiSchema jsonSchema) \<rparr>)))"

section \<open>The Gemini adapter and its model cascade\<close>

definition gemini_PROVIDER_NAME :: string where
  "gemini_PROVIDER_NAME = ''gemini''"

definition gemini_MODEL_CASCADE :: "string list" where
  "gemini_MODEL_CASCADE = [''gemini-2.5-flash-lite'', ''gemini-3-flash'', ''gemini-3-pro'']"

definition isValidModel :: "string option \<Rightarrow> bool" where
  "isValidModel mdl =
     (case mdl of None \<Rightarrow> False | Some m \<Rightarrow> m \<noteq> [] \<and> m \<in> set gemini_MODEL_CASCADE)"

text \<open>
  \<open>describeError\<close>; its message is
  \<open>error?.message ?? (typeof error === 'string' ? error : error?.toString?.() ?? '')\<close>.
\<close>

definition describeError :: "thrown \<Rightarrow> string" where
  "describeError error =
     (if falsy error then ''unknown error''
      else
        let status = statusOrCode error;
            message = messageOrString error
        in if status = Some 503 \<or> str_includes message ''503'' then ''overloaded''
           else if status = Some 429 \<or> str_includes (toLowerCase message) ''rate limit''
             then ''rate limited''
           else if status = Some 401 \<or> str_includes (toLowerCase message) ''unauthorized''
             then ''authentication failed''
           else if status = Some 400 \<or> str_includes message ''400'' then ''invalid request''
           else if status = Some 408 \<or> str_includes (toLowerCase message) ''timeout''
             then ''timeout''
           else ''unknown error'')"

definition buildModelList :: "string option \<Rightarrow> string list" where
  "buildModelList mdl =
     (if isValidModel mdl
      then the mdl # filter (\<lambda>candidate. candidate \<noteq> the mdl) gemini_MODEL_CASCADE
      else gemini_MODEL_CASCADE)"

text \<open>
  The error with which the race against the deadline's timer rejects when the timer
  wins: \<open>new Error('Request timeout')\<close>.
\<close>

definition gemini_timeout_error :: thrown where
  "gemini_timeout_error = JsError ''Request timeout'' None"

text \<open>
  The \<open>try\<close> block of one iteration, up to the awaited result. The parameter \<open>backend\<close>
  is the request to the Gemini API for a model, a generation configuration and the
  prompt, raced against the deadline: it gives the text of the response (\<open>None\<close> when
  the response has none) or what the awaited promise rejects with, which is
  \<^const>\<open>gemini_timeout_error\<close> when the timer wins. The second component is the
  model when the backend was called.
\<close>

definition gemini_attempt ::
  "('z \<Rightarrow> thrown + jschema) \<Rightarrow> (string \<Rightarrow> GenerationConfig \<Rightarrow> string \<Rightarrow> thrown + string option) \<Rightarrow>
   'z ProviderGenerateParams \<Rightarrow> string \<Rightarrow> (thrown + string option) \<times> string list" where
  "gemini_attempt toJSONSchema backend params modelName =
     (case buildGenerationConfig toJSONSchema params of
        Inl error \<Rightarrow> (Inl error, [])
      | Inr generationConfig \<Rightarrow>
          (backend modelName generationConfig (prompt params), [modelName]))"

text \<open>\<open>typeof response === 'string' && response.trim().length > 0\<close>\<close>

definition nonEmptyText :: "string option \<Rightarrow> bool" where
  "nonEmptyText response = (case response of None \<Rightarrow> False | Some t \<Rightarrow> length (trim t) > 0)"

text \<open>
  The \<open>for\<close> loop of \<open>generate\<close> over the model list, with \<open>lastError\<close>; after the
  loop, the error that all models failed. The second component lists the models
  sent to the backend.
\<close>

fun gemini_cascade ::
  "(string \<Rightarrow> (thrown + string option) \<times> string list) \<Rightarrow> string list \<Rightarrow> thrown \<Rightarrow>
   (thrown + ProviderGenerateResult) \<times> string list" where
  "gemini_cascade attempt [] lastError =
     (Inl (JsError (''All Gemini models failed. Last error type: '' @ describeError lastError @
                    ''. '' @ messageOrUnknown lastError) None), [])"
| "gemini_cascade attempt (modelName # models) lastError =
     (case attempt modelName of
        (Inr response, sent) \<Rightarrow>
          (if nonEmptyText response
           then (Inr \<lparr> content = the response, provider = gemini_PROVIDER_NAME,
                       resultModel = modelName \<rparr>, sent)
           else (let (outcome, tried) = gemini_cascade attempt models lastError
                 in (outcome, sent @ tried)))
      | (Inl error, sent) \<Rightarrow>
          (if \<not> gemini_isRetryableError error
           then (Inl (JsError (''Gemini API error ('' @ describeError error @ ''): '' @
                               messageOrUnknown error) None), sent)
           else (let (outcome, tried) = gemini_cascade attempt models error
                 in (outcome, sent @ tried))))"

definition gemini_generate ::
  "('z \<Rightarrow> thrown + jschema) \<Rightarrow> (string \<Rightarrow> GenerationConfig \<Rightarrow> string \<Rightarrow> thrown + string option) \<Rightarrow>
   'z ProviderGenerateParams \<Rightarrow> (thrown + ProviderGenerateResult) \<times> string list" where
  "gemini_generate toJSONSchema backend params =
     (let models = buildModelList (model params)
      in gemini_cascade (gemini_attempt toJSONSchema backend params) models JsUndefined)"

section \<open>The provider registry and the fallback orchestrator\<close>

datatype ProviderKey = Grok | Gemini | Claude

text \<open>The environment variables that \<open>registry.ts\<close> and the adapters' factories read.\<close>

record env =
  XAI_API_KEY :: "string option"
  GEMINI_API_KEY :: "string option"
  ANTHROPIC_API_KEY :: "string option"
  AI_PROVIDER :: "string option"
  NEXT_PUBLIC_AI_PROVIDER :: "string option"

text \<open>A string or \<open>undefined\<close> as a condition: true for a string that is not empty.\<close>

definition truthy :: "string option \<Rightarrow> bool" where
  "truthy v = (case v of None \<Rightarrow> False | Some s \<Rightarrow> s \<noteq> [])"

fun providerEnvGuards :: "ProviderKey \<Rightarrow> env \<Rightarrow> string option" where
  "providerEnvGuards Grok e = XAI_API_KEY e"
| "providerEnvGuards Gemini e = GEMINI_API_KEY e"
| "providerEnvGuards Claude e =
     (if truthy (ANTHROPIC_API_KEY e) then ANTHROPIC_API_KEY e else Some ''local-claude-code'')"

text \<open>
  \<open>envPreference in providerFactories\<close>, as the key it names. (The names that every
  object inherits, such as \<open>constructor\<close>, are outside the model.)
\<close>

definition providerKeyOf :: "string \<Rightarrow> ProviderKey option" where
  "providerKeyOf s =
     (if s = ''grok'' then Some Grok
      else if s = ''gemini'' then Some Gemini
      else if s = ''claude'' then Some Claude
      else None)"

fun keyName :: "ProviderKey \<Rightarrow> string" where
  "keyName Grok = ''grok''"
| "keyName Gemini = ''gemini''"
| "keyName Claude = ''claude''"

definition resolveProviderKey :: "string option \<Rightarrow> env \<Rightarrow> ProviderKey" where
  "resolveProviderKey preferred e =
     (let envPreference =
            (case preferred of
               Some p \<Rightarrow> Some p
             | None \<Rightarrow>
                 (case AI_PROVIDER e of Some p \<Rightarrow> Some p | None \<Rightarrow> NEXT_PUBLIC_AI_PROVIDER e))
      in if truthy envPreference \<and> providerKeyOf (the envPreference) \<noteq> None
         then the (providerKeyOf (the envPreference))
         else if truthy (providerEnvGuards Grok e) then Grok
         else if truthy (providerEnvGuards Gemini e) then Gemini
         else if truthy (providerEnvGuards Claude e) then Claude
         else Grok)"

text \<open>
  \<open>createGeminiAdapter\<close> reads \<open>GEMINI_API_KEY\<close> and throws without it.
\<close>

definition createGeminiAdapter ::
  "('z \<Rightarrow> thrown + jschema) \<Rightarrow> (string \<Rightarrow> GenerationConfig \<Rightarrow> string \<Rightarrow> thrown + string option) \<Rightarrow>
   env \<Rightarrow> thrown + 'z ProviderAdapter" where
  "createGeminiAdapter toJSONSchema backend e =
     (if \<not> truthy (GEMINI_API_KEY e)
      then Inl (JsError (''GEMINI_API_KEY is required to use the Gemini provider. '' @
                         ''Set the environment variable and try again.'') None)
      else Inr \<lparr> adapterName = gemini_PROVIDER_NAME,
                 defaultModel = gemini_MODEL_CASCADE ! 0,
                 generate = gemini_generate toJSONSchema backend \<rparr>)"

text \<open>
  \<open>providerFactories\<close>. The Grok adapter's file is not among the sources: its factory
  is the parameter \<open>createGrokAdapter\<close>, a function of the environment that returns an
  adapter or throws. The other parameters are those of the Claude and Gemini adapters.
\<close>

fun providerFactories ::
  "(env \<Rightarrow> thrown + 'z ProviderAdapter) \<Rightarrow> ('z \<Rightarrow> thrown + jschema) \<Rightarrow>
   (string \<Rightarrow> GenerationConfig \<Rightarrow> string \<Rightarrow> thrown + string option) \<Rightarrow>
   (string \<Rightarrow> string \<Rightarrow> jschema option \<Rightarrow> thrown + ProviderGenerateResult) \<Rightarrow>
   ProviderKey \<Rightarrow> env \<Rightarrow> thrown + 'z ProviderAdapter" where
  "providerFactories createGrokAdapter toJSONSchema backend sdk Grok e = createGrokAdapter e"
| "providerFactories createGrokAdapter toJSONSchema backend sdk Gemini e =
     createGeminiAdapter toJSONSchema backend e"
| "providerFactories createGrokAdapter toJSONSchema backend sdk Claude e =
     Inr (createClaudeAdapter toJSONSchema sdk)"

definition notConfigured :: "ProviderKey \<Rightarrow> thrown" where
  \<open>notConfigured key =
     JsError (''AI provider "'' @ keyName key @ ''" is not configured. '' @
              ''Please supply the required environment variables.'') None\<close>

text \<open>
  \<open>ensureProvider\<close> on the table of factories, the environment and the cache of
  adapters; it returns the adapter or what was thrown, and the cache afterwards.
\<close>

definition ensureProvider ::
  "(ProviderKey \<Rightarrow> env \<Rightarrow> thrown + 'z ProviderAdapter) \<Rightarrow> env \<Rightarrow>
   (ProviderKey \<Rightarrow> 'z ProviderAdapter option) \<Rightarrow> ProviderKey \<Rightarrow>
   (thrown + 'z ProviderAdapter) \<times> (ProviderKey \<Rightarrow> 'z ProviderAdapter option)" where
  "ensureProvider factories e providerCache key =
     (case providerCache key of
        Some adapter \<Rightarrow> (Inr adapter, providerCache)
      | None \<Rightarrow>
          (if \<not> truthy (providerEnvGuards key e) then (Inl (notConfigured key), providerCache)
           else
             (case factories key e of
                Inl error \<Rightarrow> (Inl error, providerCache)
              | Inr adapter \<Rightarrow> (Inr adapter, providerCache(key \<mapsto> adapter)))))"

text \<open>\<open>Object.keys(providerFactories)\<close> is \<open>grok\<close>, \<open>gemini\<close>, \<open>claude\<close>, in this order.\<close>

definition availableProviders :: "env \<Rightarrow> ProviderKey list" where
  "availableProviders e = filter (\<lambda>key. truthy (providerEnvGuards key e)) [Grok, Gemini, Claude]"

definition getProvider ::
  "(ProviderKey \<Rightarrow> env \<Rightarrow> thrown + 'z ProviderAdapter) \<Rightarrow> env \<Rightarrow>
   (ProviderKey \<Rightarrow> 'z ProviderAdapter option) \<Rightarrow> string option \<Rightarrow>
   (thrown + 'z ProviderAdapter) \<times> (ProviderKey \<Rightarrow> 'z ProviderAdapter option)" where
  "getProvider factories e providerCache key =
     (let resolvedKey = resolveProviderKey key e
      in ensureProvider factories e providerCache resolvedKey)"

definition getFallbackProvider :: "ProviderKey \<Rightarrow> env \<Rightarrow> ProviderKey option" where
  "getFallbackProvider currentKey e =
     (let available = availableProviders e
      in List.find (\<lambda>key. key \<noteq> currentKey) available)"

text \<open>
  \<open>generateStructuredContent\<close>. Its result has three components: the result returned
  or the error thrown; the calls of an adapter's \<open>generate\<close> that were made, in order,
  each with the provider's key and the models that the adapter sent to its backend;
  and the cache of adapters afterwards.
\<close>

definition generateStructuredContent ::
  "(ProviderKey \<Rightarrow> env \<Rightarrow> thrown + 'z ProviderAdapter) \<Rightarrow> env \<Rightarrow>
   (ProviderKey \<Rightarrow> 'z ProviderAdapter option) \<Rightarrow> string option \<Rightarrow> 'z ProviderGenerateParams \<Rightarrow>
   (thrown + ProviderGenerateResult) \<times> (ProviderKey \<times> string list) list \<times>
   (ProviderKey \<Rightarrow> 'z ProviderAdapter option)" where
  "generateStructuredContent factories e providerCache prov rest =
     (let primaryKey = resolveProviderKey prov e
      in case getProvider factories e providerCache prov of
           (Inl error, cache1) \<Rightarrow> (Inl error, [], cache1)
         | (Inr primaryAdapter, cache1) \<Rightarrow>
             (case generate primaryAdapter rest of
                (Inr res, sent) \<Rightarrow> (Inr res, [(primaryKey, sent)], cache1)
              | (Inl error, sent) \<Rightarrow>
                  (if registry_isRetryableError error then
                     (case getFallbackProvider primaryKey e of
                        Some fallbackKey \<Rightarrow>
                          (case ensureProvider factories e cache1 fallbackKey of
                             (Inl fallbackError, cache2) \<Rightarrow>
                               (Inl error, [(primaryKey, sent)], cache2)
                           | (Inr fallbackAdapter, cache2) \<Rightarrow>
                               (case generate fallbackAdapter rest of
                                  (Inr res, sent2) \<Rightarrow>
                                    (Inr res, [(primaryKey, sent), (fallbackKey, sent2)], cache2)
                                | (Inl fallbackError, sent2) \<Rightarrow>
                                    (Inl error, [(primaryKey, sent), (fallbackKey, sent2)], cache2)))
                      | None \<Rightarrow> (Inl error, [(primaryKey, sent)], cache1))
                   else (Inl error, [(primaryKey, sent)], cache1))))"

section \<open>Concrete inputs\<close>

text \<open>An environment in which none of the variables is set.\<close>

definition env_empty :: env where
  "env_empty = \<lparr> XAI_API_KEY = None, GEMINI_API_KEY = None, ANTHROPIC_API_KEY = None,
                 AI_PROVIDER = None, NEXT_PUBLIC_AI_PROVIDER = None \<rparr>"

section \<open>Signals of a retryable error\<close>

text \<open>
  The signals that some layer reads as retryable: the status codes 429 and 503, and in
  the lower-cased message the numbers 429, 502, 503, 504 and 529 and the words
  \<open>overload\<close>, \<open>rate limit\<close>, \<open>rate_limit\<close>, \<open>timeout\<close> and \<open>service unavailable\<close>.
\<close>

definition retryableSignal :: "thrown \<Rightarrow> bool" where
  "retryableSignal error =
     (let lower = toLowerCase (messageOrString error)
      in statusOrCode error = Some 429 \<or> statusOrCode error = Some 503 \<or>
         str_includes lower ''429'' \<or> str_includes lower ''502'' \<or>
         str_includes lower ''503'' \<or> str_includes lower ''504'' \<or>
         str_includes lower ''529'' \<or> str_includes lower ''overload'' \<or>
         str_includes lower ''rate limit'' \<or> str_includes lower ''rate_limit'' \<or>
         str_includes lower ''timeout'' \<or> str_includes lower ''service unavailable'')"

text \<open>
  The model on which the loop of the Claude adapter starts: \<open>params.model\<close> when it is
  one of the cascade, the first model of the cascade otherwise.
\<close>

definition claude_startModel :: "'z ProviderGenerateParams \<Rightarrow> string" where
  "claude_startModel params =
     (case model params of
        None \<Rightarrow> claude_MODEL_CASCADE ! 0
      | Some m \<Rightarrow> if m \<in> set claude_MODEL_CASCADE then m else claude_MODEL_CASCADE ! 0)"

text \<open>
  A request without a schema and without a preferred model, a schema conversion that
  throws, and backends that answer every model with an overload error.
\<close>

definition params0 :: "unit ProviderGenerateParams" where
  "params0 = \<lparr> prompt = ''hi'', model = None, temperature = None, topP = None,
               maxOutputTokens = None, timeoutMs = Some 1000, zodSchema = None \<rparr>"

definition toJSON0 :: "unit \<Rightarrow> thrown + jschema" where
  "toJSON0 z = Inl (JsError ''unsupported'' None)"

definition sdk_overloaded :: "string \<Rightarrow> string \<Rightarrow> jschema option \<Rightarrow> thrown + ProviderGenerateResult" where
  "sdk_overloaded p m f = Inl (JsError ''529 overloaded'' None)"

definition backend_overloaded :: "string \<Rightarrow> GenerationConfig \<Rightarrow> string \<Rightarrow> thrown + string option" where
  "backend_overloaded m c p = Inl (JsError ''The model is overloaded'' (Some 503))"

text \<open>
  An environment in which only \<open>GEMINI_API_KEY\<close> is set; runs of the agent SDK that
  abort at the deadline or succeed; Gemini backends whose race is won by the timer or
  that answer.
\<close>

definition env_gemini :: env where
  "env_gemini = \<lparr> XAI_API_KEY = None, GEMINI_API_KEY = Some ''key'', ANTHROPIC_API_KEY = None,
                  AI_PROVIDER = None, NEXT_PUBLIC_AI_PROVIDER = None \<rparr>"

definition sdk_aborts :: "string \<Rightarrow> string \<Rightarrow> jschema option \<Rightarrow> thrown + ProviderGenerateResult" where
  "sdk_aborts p m f = Inl (AbortError ''This operation was aborted'')"

definition sdk_ok :: "string \<Rightarrow> string \<Rightarrow> jschema option \<Rightarrow> thrown + ProviderGenerateResult" where
  "sdk_ok p m f = Inr \<lparr> content = ''ok'', provider = ''claude'', resultModel = m \<rparr>"

definition backend_timeout :: "string \<Rightarrow> GenerationConfig \<Rightarrow> string \<Rightarrow> thrown + string option" where
  "backend_timeout m c p = Inl gemini_timeout_error"

definition backend_ok :: "string \<Rightarrow> GenerationConfig \<Rightarrow> string \<Rightarrow> thrown + string option" where
  "backend_ok m c p = Inr (Some ''ok'')"

text \<open>
  The table of factories with these backends and a Grok factory that throws, and the
  empty cache of adapters.
\<close>

definition factories0 ::
  "(string \<Rightarrow> string \<Rightarrow> jschema option \<Rightarrow> thrown + ProviderGenerateResult) \<Rightarrow>
   (string \<Rightarrow> GenerationConfig \<Rightarrow> string \<Rightarrow> thrown + string option) \<Rightarrow>
   ProviderKey \<Rightarrow> env \<Rightarrow> thrown + unit ProviderAdapter" where
  "factories0 sdk backend =
     providerFactories (\<lambda>e. Inl (JsError ''XAI_API_KEY is required'' None)) toJSON0 backend sdk"

definition noCache :: "ProviderKey \<Rightarrow> unit ProviderAdapter option" where
  "noCache key = None"

chapter \<open>Properties\<close>

section \<open>The Claude provider is always configured\<close>

lemma local_claude_code_truthy: "truthy (Some ''local-claude-code'')"
  by (simp add: truthy_def)

lemma claude_guard_truthy: "truthy (providerEnvGuards Claude e)"
  by (simp add: local_claude_code_truthy)

lemma claude_available: "Claude \<in> set (availableProviders e)"
  by (simp add: availableProviders_def local_claude_code_truthy)

lemma find_other_than:
  "x \<in> set xs \<Longrightarrow> x \<noteq> k \<Longrightarrow> List.find (\<lambda>key. key \<noteq> k) xs \<noteq> None"
  by (auto simp: find_None_iff)

lemma ensureProvider_claude:
  "\<exists>adapter. fst (ensureProvider (providerFactories createGrokAdapter toJSONSchema backend sdk)
                      e providerCache Claude) = Inr adapter"
  by (cases "providerCache Claude") (simp_all add: ensureProvider_def local_claude_code_truthy)

text \<open>
  Claim C10. The environment guard of the Claude provider gives the constant
  \<open>local-claude-code\<close> when \<open>ANTHROPIC_API_KEY\<close> is not set, and is truthy in every
  environment. Hence \<open>availableProviders\<close> always contains \<open>claude\<close>,
  \<open>ensureProvider\<close> on \<open>claude\<close> returns an adapter (it does not throw, so never the
  error that the provider is not configured), and \<open>getFallbackProvider\<close> finds a
  fallback for every primary key other than \<open>claude\<close>.
\<close>

theorem claude_always_configured:
  "(ANTHROPIC_API_KEY e = None \<longrightarrow> providerEnvGuards Claude e = Some ''local-claude-code'') \<and>
   truthy (providerEnvGuards Claude e) \<and>
   Claude \<in> set (availableProviders e) \<and>
   (\<exists>adapter. fst (ensureProvider (providerFactories createGrokAdapter toJSONSchema backend sdk)
                      e providerCache Claude) = Inr adapter) \<and>
   (\<forall>k. k \<noteq> Claude \<longrightarrow> getFallbackProvider k e \<noteq> None)"
proof (intro conjI allI impI)
  assume "ANTHROPIC_API_KEY e = None"
  then show "providerEnvGuards Claude e = Some ''local-claude-code''"
    by (simp add: truthy_def)
next
  show "truthy (providerEnvGuards Claude e)" by (rule claude_guard_truthy)
next
  show "Claude \<in> set (availableProviders e)" by (rule claude_available)
next
  show "\<exists>adapter. fst (ensureProvider (providerFactories createGrokAdapter toJSONSchema backend sdk)
                      e providerCache Claude) = Inr adapter"
    by (rule ensureProvider_claude)
next
  fix k :: ProviderKey
  assume "k \<noteq> Claude"
  then have "Claude \<noteq> k" by simp
  with claude_available [of e] show "getFallbackProvider k e \<noteq> None"
    unfolding getFallbackProvider_def Let_def by (rule find_other_than)
qed

theorem claude_always_configured_witness:
  "ANTHROPIC_API_KEY env_empty = None \<and>
   providerEnvGuards Claude env_empty = Some ''local-claude-code'' \<and>
   availableProviders env_empty = [Claude] \<and>
   Grok \<noteq> Claude \<and> getFallbackProvider Grok env_empty = Some Claude \<and>
   Gemini \<noteq> Claude \<and> getFallbackProvider Gemini env_empty = Some Claude \<and>
   getFallbackProvider Claude env_empty = None"
  using claude_always_configured [of env_empty "\<lambda>e. Inl JsUndefined" "\<lambda>z::unit. Inl JsUndefined"
      "\<lambda>m c p. Inl JsUndefined" "\<lambda>p m f. Inl JsUndefined" "\<lambda>k. None"]
  by (simp add: env_empty_def availableProviders_def getFallbackProvider_def truthy_def)

section \<open>Error classification\<close>

lemma startsWith_iff: "startsWith s p \<longleftrightarrow> (\<exists>b. s = p @ b)"
  by (induction s p rule: startsWith.induct) auto

lemma str_includes_iff: "str_includes s sub \<longleftrightarrow> (\<exists>a b. s = a @ sub @ b)"
proof (induction s)
  case Nil
  then show ?case by auto
next
  case (Cons c s)
  show ?case
  proof
    assume "str_includes (c # s) sub"
    then consider "startsWith (c # s) sub" | "str_includes s sub" by auto
    then show "\<exists>a b. c # s = a @ sub @ b"
    proof cases
      case 1
      then obtain b where "c # s = sub @ b" by (auto simp: startsWith_iff)
      then have "c # s = [] @ sub @ b" by simp
      then show ?thesis by blast
    next
      case 2
      with Cons obtain a b where "s = a @ sub @ b" by auto
      then have "c # s = (c # a) @ sub @ b" by simp
      then show ?thesis by blast
    qed
  next
    assume "\<exists>a b. c # s = a @ sub @ b"
    then obtain a b where ab: "c # s = a @ sub @ b" by blast
    show "str_includes (c # s) sub"
    proof (cases a)
      case Nil
      with ab have "startsWith (c # s) sub" by (auto simp: startsWith_iff)
      then show ?thesis by simp
    next
      case (Cons x a')
      with ab have "s = a' @ sub @ b" by simp
      with Cons.IH have "str_includes s sub" by blast
      then show ?thesis by simp
    qed
  qed
qed

lemma str_includes_lower:
  "str_includes s sub \<Longrightarrow> str_includes (toLowerCase s) (toLowerCase sub)"
  by (auto simp: str_includes_iff toLowerCase_def) blast

lemma str_includes_prefix_of:
  "str_includes s (p @ q) \<Longrightarrow> str_includes s p"
  by (auto simp: str_includes_iff)

lemma lower_503: "toLowerCase ''503'' = ''503''"
  by (simp add: toLowerCase_def toLowerChar_def)

lemma lower_429: "toLowerCase ''429'' = ''429''"
  by (simp add: toLowerCase_def toLowerChar_def)

lemma includes_503_lower: "str_includes m ''503'' \<Longrightarrow> str_includes (toLowerCase m) ''503''"
  using str_includes_lower [of m "''503''"] by (simp add: lower_503)

lemma includes_429_lower: "str_includes m ''429'' \<Longrightarrow> str_includes (toLowerCase m) ''429''"
  using str_includes_lower [of m "''429''"] by (simp add: lower_429)

lemma includes_overloaded: "str_includes s ''overloaded'' \<Longrightarrow> str_includes s ''overload''"
  using str_includes_prefix_of [of s "''overload''" "''ed''"] by simp




section \<open>The model cascades\<close>

lemma claude_cascade_ok:
  "call cur = Inr res \<Longrightarrow> claude_cascade call cur = (Inr res, [cur])"
  by (subst claude_cascade.simps) simp

lemma claude_cascade_fatal:
  "call cur = Inl e \<Longrightarrow> \<not> claude_isRetryableError e \<Longrightarrow>
   claude_cascade call cur = (Inl e, [cur])"
  by (subst claude_cascade.simps) simp

lemma claude_cascade_last_model:
  "call cur = Inl e \<Longrightarrow> claude_isRetryableError e \<Longrightarrow> getNextModel cur = None \<Longrightarrow>
   claude_cascade call cur = (Inl e, [cur])"
  by (subst claude_cascade.simps) simp

lemma claude_cascade_next:
  "call cur = Inl e \<Longrightarrow> claude_isRetryableError e \<Longrightarrow> getNextModel cur = Some nxt \<Longrightarrow>
   claude_cascade call cur =
     (fst (claude_cascade call nxt), cur # snd (claude_cascade call nxt))"
  by (subst claude_cascade.simps) (simp split: prod.splits)

lemma claude_cascade_cases:
  obtains res where "call cur = Inr res" "claude_cascade call cur = (Inr res, [cur])"
  | e where "call cur = Inl e" "\<not> claude_isRetryableError e"
      "claude_cascade call cur = (Inl e, [cur])"
  | e where "call cur = Inl e" "claude_isRetryableError e" "getNextModel cur = None"
      "claude_cascade call cur = (Inl e, [cur])"
  | e nxt where "call cur = Inl e" "claude_isRetryableError e" "getNextModel cur = Some nxt"
      "claude_cascade call cur =
         (fst (claude_cascade call nxt), cur # snd (claude_cascade call nxt))"
proof (cases "call cur")
  case (Inr res)
  with that(1) claude_cascade_ok show ?thesis by blast
next
  case (Inl e)
  show ?thesis
  proof (cases "claude_isRetryableError e")
    case False
    with Inl that(2) claude_cascade_fatal show ?thesis by blast
  next
    case True
    show ?thesis
    proof (cases "getNextModel cur")
      case None
      with Inl True that(3) claude_cascade_last_model show ?thesis by blast
    next
      case (Some nxt)
      with Inl True that(4) claude_cascade_next show ?thesis by blast
    qed
  qed
qed

lemma claude_cascade_head:
  "\<exists>rest. snd (claude_cascade call start) = start # rest"
  by (rule claude_cascade_cases [of call start]) simp_all

lemma drop_index_Cons:
  assumes "0 \<le> indexOf ys x"
  shows "drop (nat (indexOf ys x)) ys = x # drop (Suc (nat (indexOf ys x))) ys"
proof -
  from assms indexOf_bound [of ys x] have "nat (indexOf ys x) < length ys" by simp
  then have "drop (nat (indexOf ys x)) ys =
             ys ! nat (indexOf ys x) # drop (Suc (nat (indexOf ys x))) ys"
    by (rule Cons_nth_drop_Suc [symmetric])
  with indexOf_nth [OF assms] show ?thesis by simp
qed

lemma getNextModel_Suc:
  assumes "getNextModel cur = Some nxt"
  shows "0 \<le> indexOf claude_MODEL_CASCADE nxt"
    and "nat (indexOf claude_MODEL_CASCADE nxt) = Suc (nat (indexOf claude_MODEL_CASCADE cur))"
  using getNextModel_index [OF assms] by linarith+

lemma claude_cascade_prefix:
  "0 \<le> indexOf claude_MODEL_CASCADE start \<Longrightarrow>
   prefix (snd (claude_cascade call start))
     (drop (nat (indexOf claude_MODEL_CASCADE start)) claude_MODEL_CASCADE)"
proof (induction call start rule: claude_cascade.induct)
  case (1 call cur)
  note d = drop_index_Cons [OF 1(2)]
  show ?case
  proof (rule claude_cascade_cases [of call cur])
    fix e nxt
    assume a: "call cur = Inl e" "claude_isRetryableError e" "getNextModel cur = Some nxt"
      and eq: "claude_cascade call cur =
               (fst (claude_cascade call nxt), cur # snd (claude_cascade call nxt))"
    from 1(1) [OF a getNextModel_Suc(1) [OF a(3)]] getNextModel_Suc(2) [OF a(3)]
    show ?thesis by (simp add: eq d)
  qed (simp_all add: d)
qed

lemma claude_cascade_last:
  "fst (claude_cascade call start) = call (last (snd (claude_cascade call start)))"
proof (induction call start rule: claude_cascade.induct)
  case (1 call cur)
  show ?case
  proof (rule claude_cascade_cases [of call cur])
    fix e nxt
    assume a: "call cur = Inl e" "claude_isRetryableError e" "getNextModel cur = Some nxt"
      and eq: "claude_cascade call cur =
               (fst (claude_cascade call nxt), cur # snd (claude_cascade call nxt))"
    from claude_cascade_head [of call nxt] obtain rest
      where r: "snd (claude_cascade call nxt) = nxt # rest" by blast
    from 1 [OF a] r show ?thesis by (simp add: eq)
  qed simp_all
qed

lemma claude_cascade_exhaust:
  "\<forall>m \<in> set claude_MODEL_CASCADE. \<exists>e. call m = Inl e \<and> claude_isRetryableError e \<Longrightarrow>
   0 \<le> indexOf claude_MODEL_CASCADE start \<Longrightarrow>
   snd (claude_cascade call start) =
     drop (nat (indexOf claude_MODEL_CASCADE start)) claude_MODEL_CASCADE"
proof (induction call start rule: claude_cascade.induct)
  case (1 call cur)
  note d = drop_index_Cons [OF 1(3)]
  from 1(3) indexOf_bound [of claude_MODEL_CASCADE cur]
  have lt: "nat (indexOf claude_MODEL_CASCADE cur) < length claude_MODEL_CASCADE" by simp
  with indexOf_nth [OF 1(3)] have "cur \<in> set claude_MODEL_CASCADE"
    by (metis nth_mem)
  with 1(2) obtain error where e: "call cur = Inl error" "claude_isRetryableError error"
    by blast
  show ?case
  proof (cases "getNextModel cur")
    case None
    with 1(3) lt have "indexOf claude_MODEL_CASCADE cur = int (length claude_MODEL_CASCADE) - 1"
      by (auto simp: getNextModel_def Let_def split: if_splits)
    then have "drop (Suc (nat (indexOf claude_MODEL_CASCADE cur))) claude_MODEL_CASCADE = []"
      by simp
    with claude_cascade_last_model [of call cur error, OF e None] d show ?thesis by simp
  next
    case (Some nxt)
    from 1(1) [OF e Some 1(2) getNextModel_Suc(1) [OF Some]] getNextModel_Suc(2) [OF Some]
      claude_cascade_next [of call cur error nxt, OF e Some] d
    show ?thesis by simp
  qed
qed

lemma claude_generate_start:
  "claude_generate toJSONSchema sdk params =
     claude_cascade (\<lambda>m. callClaude toJSONSchema sdk (prompt params) m params)
       (claude_startModel params)"
  by (auto simp: claude_generate_def claude_startModel_def Let_def claude_MODEL_CASCADE_def
      split: option.splits)

lemma indexOf_member: "x \<in> set ys \<Longrightarrow> 0 \<le> indexOf ys x"
  by (induction ys) (auto simp: Let_def)

lemma claude_startModel_index: "0 \<le> indexOf claude_MODEL_CASCADE (claude_startModel params)"
proof -
  have "claude_startModel params \<in> set claude_MODEL_CASCADE"
    by (auto simp: claude_startModel_def claude_MODEL_CASCADE_def split: option.splits)
  then show ?thesis by (rule indexOf_member)
qed

lemma gemini_cascade_snd:
  "snd (gemini_cascade attempt (m # models) lastError) =
     (case fst (attempt m) of
        Inr response \<Rightarrow>
          if nonEmptyText response then snd (attempt m)
          else snd (attempt m) @ snd (gemini_cascade attempt models lastError)
      | Inl error \<Rightarrow>
          if \<not> gemini_isRetryableError error then snd (attempt m)
          else snd (attempt m) @ snd (gemini_cascade attempt models error))"
  by (cases "attempt m") (simp add: split_beta split: sum.splits)

lemma gemini_cascade_unsent:
  "\<forall>m. snd (attempt m) = [] \<Longrightarrow> snd (gemini_cascade attempt models lastError) = []"
proof (induction models arbitrary: lastError)
  case Nil
  show ?case by simp
next
  case (Cons m models)
  with Cons.IH [OF Cons.prems] show ?case
    by (simp del: gemini_cascade.simps add: gemini_cascade_snd split: sum.splits)
qed

lemma gemini_cascade_prefix:
  "\<forall>m. snd (attempt m) = [m] \<Longrightarrow> prefix (snd (gemini_cascade attempt models lastError)) models"
proof (induction models arbitrary: lastError)
  case Nil
  show ?case by simp
next
  case (Cons m models)
  with Cons.IH [OF Cons.prems] show ?case
    by (simp del: gemini_cascade.simps add: gemini_cascade_snd split: sum.splits)
qed

lemma gemini_attempt_sent:
  "(\<forall>m. snd (gemini_attempt toJSONSchema backend params m) = []) \<or>
   (\<forall>m. snd (gemini_attempt toJSONSchema backend params m) = [m])"
  by (cases "buildGenerationConfig toJSONSchema params") (simp_all add: gemini_attempt_def)

lemma gemini_generate_prefix:
  "prefix (snd (gemini_generate toJSONSchema backend params)) (buildModelList (model params))"
  using gemini_attempt_sent [of toJSONSchema backend params]
  by (auto simp: gemini_generate_def Let_def gemini_cascade_unsent gemini_cascade_prefix)

lemma buildModelList_distinct: "distinct (buildModelList mdl)"
  by (simp add: buildModelList_def gemini_MODEL_CASCADE_def)

lemma buildModelList_subset: "set (buildModelList mdl) \<subseteq> set gemini_MODEL_CASCADE"
  by (auto simp: buildModelList_def isValidModel_def split: option.splits)

lemma gemini_cascade_exhaust:
  "\<forall>m \<in> set models. \<exists>e. attempt m = (Inl e, [m]) \<and> gemini_isRetryableError e \<Longrightarrow>
   snd (gemini_cascade attempt models lastError) = models \<and>
   (\<exists>e. fst (gemini_cascade attempt models lastError) = Inl e)"
proof (induction models arbitrary: lastError)
  case Nil
  show ?case by simp
next
  case (Cons m models)
  from Cons.prems obtain e where e: "attempt m = (Inl e, [m])" "gemini_isRetryableError e"
    by auto
  from Cons.prems have "\<forall>m \<in> set models. \<exists>e. attempt m = (Inl e, [m]) \<and> gemini_isRetryableError e"
    by simp
  from Cons.IH [OF this, of e] e show ?case
    by (auto split: prod.splits)
qed

lemma gemini_generate_exhaust:
  assumes "buildGenerationConfig toJSONSchema params = Inr cfg"
    and "\<forall>m \<in> set gemini_MODEL_CASCADE.
           \<exists>e. backend m cfg (prompt params) = Inl e \<and> gemini_isRetryableError e"
  shows "snd (gemini_generate toJSONSchema backend params) = buildModelList (model params) \<and>
         (\<exists>e. fst (gemini_generate toJSONSchema backend params) = Inl e)"
proof -
  have "\<forall>m \<in> set (buildModelList (model params)).
          \<exists>e. gemini_attempt toJSONSchema backend params m = (Inl e, [m]) \<and>
              gemini_isRetryableError e"
    using assms buildModelList_subset [of "model params"]
    by (auto simp: gemini_attempt_def)
  from gemini_cascade_exhaust [OF this] show ?thesis
    by (simp add: gemini_generate_def Let_def)
qed



section \<open>The fallback orchestrator\<close>

lemma find_other_differs:
  "List.find (\<lambda>key. key \<noteq> k) xs = Some f \<Longrightarrow> f \<noteq> k \<and> f \<in> set xs"
  by (auto simp: find_Some_iff)

lemma available_truthy:
  "k \<in> set (availableProviders e) \<Longrightarrow> truthy (providerEnvGuards k e)"
  unfolding availableProviders_def set_filter by blast

lemma getFallbackProvider_other:
  assumes "getFallbackProvider currentKey e = Some fallbackKey"
  shows "fallbackKey \<noteq> currentKey \<and> truthy (providerEnvGuards fallbackKey e)"
proof -
  from assms have "List.find (\<lambda>key. key \<noteq> currentKey) (availableProviders e) = Some fallbackKey"
    by (simp add: getFallbackProvider_def)
  from find_other_differs [OF this] available_truthy show ?thesis by blast
qed


lemmas eval_defs = toLowerCase_def toLowerChar_def claude_MODEL_CASCADE_def
  gemini_MODEL_CASCADE_def params0_def toJSON0_def Let_def

lemma eval_gemini_overloaded:
  "gemini_generate toJSON0 backend_overloaded params0 =
     (Inl (JsError ''All Gemini models failed. Last error type: overloaded. The model is overloaded''
             None), gemini_MODEL_CASCADE)"
  by (simp add: gemini_generate_def buildModelList_def isValidModel_def gemini_attempt_def
      buildGenerationConfig_def backend_overloaded_def gemini_isRetryableError_def
      describeError_def eval_defs)

lemma eval_gemini_timeout:
  "gemini_generate toJSON0 backend_timeout params0 =
     (Inl (JsError ''Gemini API error (timeout): Request timeout'' None),
      [''gemini-2.5-flash-lite''])"
  by (simp add: gemini_generate_def buildModelList_def isValidModel_def gemini_attempt_def
      buildGenerationConfig_def backend_timeout_def gemini_timeout_error_def
      gemini_isRetryableError_def describeError_def eval_defs)

lemma eval_gemini_ok:
  "gemini_generate toJSON0 backend_ok params0 =
     (Inr \<lparr> content = ''ok'', provider = ''gemini'', resultModel = ''gemini-2.5-flash-lite'' \<rparr>,
      [''gemini-2.5-flash-lite''])"
  by (simp add: gemini_generate_def buildModelList_def isValidModel_def gemini_attempt_def
      buildGenerationConfig_def backend_ok_def nonEmptyText_def trim_def isSpace_def
      gemini_PROVIDER_NAME_def eval_defs)

lemma eval_claude_aborts:
  "claude_generate toJSON0 sdk_aborts params0 =
     (Inl (JsError ''Claude request timed out.'' None), [''claude-haiku-4-5-20251001''])"
  by (simp add: claude_generate_def claude_cascade.simps callClaude_def sdk_aborts_def
      claude_isRetryableError_def eval_defs)

lemma eval_claude_ok:
  "claude_generate toJSON0 sdk_ok params0 =
     (Inr \<lparr> content = ''ok'', provider = ''claude'', resultModel = ''claude-haiku-4-5-20251001'' \<rparr>,
      [''claude-haiku-4-5-20251001''])"
  by (simp add: claude_generate_def claude_cascade.simps callClaude_def sdk_ok_def eval_defs)

lemma eval_claude_overloaded:
  "claude_generate toJSON0 sdk_overloaded params0 =
     (Inl (JsError ''529 overloaded'' None), claude_MODEL_CASCADE)"
  by (simp add: claude_generate_def claude_cascade.simps callClaude_def sdk_overloaded_def
      claude_isRetryableError_def getNextModel_def eval_defs)

lemma orchestrator_fatal:
  "getProvider factories e providerCache prov = (Inr primaryAdapter, cache1) \<Longrightarrow>
   generate primaryAdapter rest = (Inl error, sent) \<Longrightarrow>
   \<not> registry_isRetryableError error \<Longrightarrow>
   generateStructuredContent factories e providerCache prov rest =
     (Inl error, [(resolveProviderKey prov e, sent)], cache1)"
  by (simp add: generateStructuredContent_def)

lemma orchestrator_fallback:
  "getProvider factories e providerCache prov = (Inr primaryAdapter, cache1) \<Longrightarrow>
   generate primaryAdapter rest = (Inl error, sent) \<Longrightarrow>
   registry_isRetryableError error \<Longrightarrow>
   getFallbackProvider (resolveProviderKey prov e) e = Some fallbackKey \<Longrightarrow>
   ensureProvider factories e cache1 fallbackKey = (Inr fallbackAdapter, cache2) \<Longrightarrow>
   generate fallbackAdapter rest = (outcome2, sent2) \<Longrightarrow>
   generateStructuredContent factories e providerCache prov rest =
     ((case outcome2 of Inr res \<Rightarrow> Inr res | Inl fallbackError \<Rightarrow> Inl error),
      [(resolveProviderKey prov e, sent), (fallbackKey, sent2)], cache2)"
  by (simp add: generateStructuredContent_def split: sum.splits)

lemma fallback_of_gemini: "getFallbackProvider Gemini env_gemini = Some Claude"
  by (simp add: getFallbackProvider_def availableProviders_def truthy_def env_gemini_def)

lemma fallback_of_claude: "getFallbackProvider Claude env_gemini = Some Gemini"
  by (simp add: getFallbackProvider_def availableProviders_def truthy_def env_gemini_def)

lemma resolve_gemini: "resolveProviderKey (Some ''gemini'') env_gemini = Gemini"
  by (simp add: resolveProviderKey_def providerKeyOf_def truthy_def)

lemma resolve_claude: "resolveProviderKey (Some ''claude'') env_gemini = Claude"
  by (simp add: resolveProviderKey_def providerKeyOf_def truthy_def)

lemma guard_gemini: "truthy (providerEnvGuards Gemini env_gemini)"
  by (simp add: truthy_def env_gemini_def)

lemma gemini_key: "truthy (GEMINI_API_KEY env_gemini)"
  by (simp add: truthy_def env_gemini_def)

lemma claude_timeout_error_fatal:
  "\<not> claude_isRetryableError (JsError ''Claude request timed out.'' None) \<and>
   \<not> registry_isRetryableError (JsError ''Claude request timed out.'' None)"
  by (simp add: claude_isRetryableError_def registry_isRetryableError_def toLowerCase_def
      toLowerChar_def)

lemma getProvider_gemini_fresh:
  "getProvider (factories0 sdk backend) env_gemini noCache (Some ''gemini'') =
     (Inr \<lparr> adapterName = gemini_PROVIDER_NAME, defaultModel = gemini_MODEL_CASCADE ! 0,
             generate = gemini_generate toJSON0 backend \<rparr>,
      noCache(Gemini \<mapsto> \<lparr> adapterName = gemini_PROVIDER_NAME,
                           defaultModel = gemini_MODEL_CASCADE ! 0,
                           generate = gemini_generate toJSON0 backend \<rparr>))"
  by (simp add: getProvider_def resolve_gemini ensureProvider_def noCache_def guard_gemini
      gemini_key factories0_def createGeminiAdapter_def del: providerEnvGuards.simps)

lemma getProvider_claude_fresh:
  "getProvider (factories0 sdk backend) env_gemini noCache (Some ''claude'') =
     (Inr (createClaudeAdapter toJSON0 sdk), noCache(Claude \<mapsto> createClaudeAdapter toJSON0 sdk))"
  by (simp add: getProvider_def resolve_claude ensureProvider_def noCache_def
      local_claude_code_truthy factories0_def)

lemma ensureProvider_claude_fresh:
  "cache Claude = None \<Longrightarrow>
   ensureProvider (factories0 sdk backend) env_gemini cache Claude =
     (Inr (createClaudeAdapter toJSON0 sdk), cache(Claude \<mapsto> createClaudeAdapter toJSON0 sdk))"
  by (simp add: ensureProvider_def local_claude_code_truthy factories0_def)

lemma generate_claude_adapter:
  "generate (createClaudeAdapter toJSONSchema sdk) = claude_generate toJSONSchema sdk"
  by (simp add: createClaudeAdapter_def)

lemma gemini_timeout_wrapped_retryable:
  "registry_isRetryableError (JsError ''Gemini API error (timeout): Request timeout'' None)"
  by (simp add: registry_isRetryableError_def toLowerCase_def toLowerChar_def)

lemma eval_claude_timeout_run:
  "generateStructuredContent (factories0 sdk_aborts backend_ok) env_gemini noCache
     (Some ''claude'') params0 =
   (Inl (JsError ''Claude request timed out.'' None),
    [(Claude, [''claude-haiku-4-5-20251001''])],
    noCache(Claude \<mapsto> createClaudeAdapter toJSON0 sdk_aborts))"
proof -
  have g: "generate (createClaudeAdapter toJSON0 sdk_aborts) params0 =
           (Inl (JsError ''Claude request timed out.'' None), [''claude-haiku-4-5-20251001''])"
    by (simp only: generate_claude_adapter eval_claude_aborts)
  from claude_timeout_error_fatal
  have n: "\<not> registry_isRetryableError (JsError ''Claude request timed out.'' None)" by simp
  from orchestrator_fatal [OF getProvider_claude_fresh g n] show ?thesis
    by (simp only: resolve_claude)
qed

lemma eval_gemini_timeout_run:
  "fst (generateStructuredContent (factories0 sdk_ok backend_timeout) env_gemini noCache
     (Some ''gemini'') params0) =
     Inr \<lparr> content = ''ok'', provider = ''claude'', resultModel = ''claude-haiku-4-5-20251001'' \<rparr> \<and>
   fst (snd (generateStructuredContent (factories0 sdk_ok backend_timeout) env_gemini noCache
     (Some ''gemini'') params0)) =
     [(Gemini, [''gemini-2.5-flash-lite'']), (Claude, [''claude-haiku-4-5-20251001''])]"
proof -
  let ?A = "\<lparr> adapterName = gemini_PROVIDER_NAME, defaultModel = gemini_MODEL_CASCADE ! 0,
              generate = gemini_generate toJSON0 backend_timeout \<rparr>"
  have g: "generate ?A params0 =
           (Inl (JsError ''Gemini API error (timeout): Request timeout'' None),
            [''gemini-2.5-flash-lite''])"
    by (simp add: eval_gemini_timeout)
  have f: "getFallbackProvider (resolveProviderKey (Some ''gemini'') env_gemini) env_gemini =
           Some Claude"
    by (simp only: resolve_gemini fallback_of_gemini)
  have c: "(noCache(Gemini \<mapsto> ?A)) Claude = None" by (simp add: noCache_def)
  have g2: "generate (createClaudeAdapter toJSON0 sdk_ok) params0 =
            (Inr \<lparr> content = ''ok'', provider = ''claude'',
                    resultModel = ''claude-haiku-4-5-20251001'' \<rparr>,
             [''claude-haiku-4-5-20251001''])"
    by (simp only: generate_claude_adapter eval_claude_ok)
  from orchestrator_fallback [OF getProvider_gemini_fresh g gemini_timeout_wrapped_retryable f
      ensureProvider_claude_fresh [of "noCache(Gemini \<mapsto> ?A)" sdk_ok backend_timeout, OF c] g2]
  show ?thesis by (simp add: resolve_gemini)
qed


text \<open>
  Claim C4, on the Claude adapter with Gemini configured as the other provider. The
  aborted call surfaces as the error \<open>Claude request timed out.\<close>, which the cascade
  treats as fatal: one model is tried. The orchestrator classifies this error as fatal
  too, since its message does not contain \<open>timeout\<close>: no fallback is attempted. The
  Gemini adapter's timeout error, \<open>Gemini API error (timeout): Request timeout\<close>, is
  retryable for the orchestrator.
\<close>

theorem claude_timeout_not_retried:
  "claude_generate toJSON0 sdk_aborts params0 =
     (Inl (JsError ''Claude request timed out.'' None), [''claude-haiku-4-5-20251001'']) \<and>
   \<not> claude_isRetryableError (JsError ''Claude request timed out.'' None) \<and>
   \<not> registry_isRetryableError (JsError ''Claude request timed out.'' None) \<and>
   getFallbackProvider Claude env_gemini = Some Gemini \<and>
   fst (generateStructuredContent (factories0 sdk_aborts backend_ok) env_gemini noCache
     (Some ''claude'') params0) = Inl (JsError ''Claude request timed out.'' None) \<and>
   fst (snd (generateStructuredContent (factories0 sdk_aborts backend_ok) env_gemini noCache
     (Some ''claude'') params0)) = [(Claude, [''claude-haiku-4-5-20251001''])] \<and>
   registry_isRetryableError (JsError ''Gemini API error (timeout): Request timeout'' None)"
  using claude_timeout_error_fatal
  by (simp add: eval_claude_aborts eval_claude_timeout_run fallback_of_claude
      registry_isRetryableError_def toLowerCase_def toLowerChar_def)


lemma gemini_generate_fatal:
  assumes "gemini_attempt toJSONSchema backend params (hd (buildModelList (model params))) =
             (Inl e, sent)"
    and "\<not> gemini_isRetryableError e"
  shows "gemini_generate toJSONSchema backend params =
           (Inl (JsError (''Gemini API error ('' @ describeError e @ ''): '' @
                          messageOrUnknown e) None), sent) \<and> length sent \<le> 1"
proof -
  obtain m ms where l: "buildModelList (model params) = m # ms"
    by (cases "buildModelList (model params)")
       (auto simp: buildModelList_def gemini_MODEL_CASCADE_def split: if_splits)
  from assms(1) have "length sent \<le> 1"
    by (auto simp: gemini_attempt_def split: sum.splits)
  with assms l show ?thesis by (simp add: gemini_generate_def)
qed



end
